theory Spec2Isabelle
  imports Main "HOL-Library.Sublist"
begin

section \<open>Python strings\<close>

text \<open>
  A Python \<^verbatim>\<open>str\<close> is a sequence of Unicode code points, and \<^verbatim>\<open>len\<close> counts
  code points. The model is a list of code points; the literals of the source that are not
  ASCII are written as their code points, with the code points named in the comment.
\<close>

type_synonym pystr = "nat list"

definition ascii :: "string \<Rightarrow> pystr" where
  "ascii s = map of_char s"

text \<open>
  \<^verbatim>\<open>str.strip()\<close> without argument removes the leading and trailing characters for
  which \<^verbatim>\<open>str.isspace()\<close> holds: the code points below.
\<close>

definition isspace :: "nat \<Rightarrow> bool" where
  "isspace c = (c \<in> set [9, 10, 11, 12, 13, 28, 29, 30, 31, 32, 133, 160, 5760,
      8192, 8193, 8194, 8195, 8196, 8197, 8198, 8199, 8200, 8201, 8202,
      8232, 8233, 8239, 8287, 12288])"

definition strip :: "pystr \<Rightarrow> pystr" where
  "strip s = rev (dropWhile isspace (rev (dropWhile isspace s)))"

text \<open>
  \<^verbatim>\<open>str.lower()\<close> is the Unicode case mapping of the Python runtime. The functions
  below take it as the parameter \<open>lower\<close>, so every theorem holds for whatever that mapping
  is. \<open>ascii_lower\<close> agrees with it on strings whose cased characters are all ASCII and
  serves at concrete inputs.
\<close>

definition ascii_lower_cp :: "nat \<Rightarrow> nat" where
  "ascii_lower_cp c = (if 65 \<le> c \<and> c \<le> 90 then c + 32 else c)"

definition ascii_lower :: "pystr \<Rightarrow> pystr" where
  "ascii_lower s = map ascii_lower_cp s"

section \<open>chat\_executor.py: output filtering\<close>

text \<open>
  \<^verbatim>\<open>EXECUTION_INFO_PATTERN = re.compile(r'<Execution Info>.*?</Execution Info>', re.DOTALL)\<close>
  and \<^verbatim>\<open>EXECUTION_INFO_PATTERN.sub('', output)\<close>. The scan goes from left to right. At a
  position where the opening marker starts and a closing marker follows it, the match is the
  shortest one (\<^verbatim>\<open>.*?\<close> is lazy and, with DOTALL, matches every character): up to the end
  of the first closing marker after the opening one. The match is deleted and the scan goes
  on behind it. Everywhere else the character is kept.
\<close>

definition EXEC_OPEN :: pystr where
  "EXEC_OPEN = ascii ''<Execution Info>''"

definition EXEC_CLOSE :: pystr where
  "EXEC_CLOSE = ascii ''</Execution Info>''"

fun after_first :: "pystr \<Rightarrow> pystr \<Rightarrow> pystr option" where
  "after_first pat [] = (if pat = [] then Some [] else None)"
| "after_first pat (c # cs) =
     (if prefix pat (c # cs) then Some (drop (length pat) (c # cs)) else after_first pat cs)"

function sub_execution_info :: "pystr \<Rightarrow> pystr" where
  "sub_execution_info [] = []"
| "sub_execution_info (c # cs) =
     (if prefix EXEC_OPEN (c # cs) then
        (case after_first EXEC_CLOSE (drop (length EXEC_OPEN) (c # cs)) of
           Some rest \<Rightarrow> sub_execution_info rest
         | None \<Rightarrow> c # sub_execution_info cs)
      else c # sub_execution_info cs)"
  by pat_completeness auto
termination
proof (relation "measure length")
  show "wf (measure length)" by simp
next
  fix c :: nat and cs rest
  assume "prefix EXEC_OPEN (c # cs)"
    and r: "after_first EXEC_CLOSE (drop (length EXEC_OPEN) (c # cs)) = Some rest"
  have shorter: "after_first pat s = Some t \<Longrightarrow> length t \<le> length s" for pat s t
    by (induction s) (auto split: if_splits)
  have "length EXEC_OPEN = 16"
    by (simp add: EXEC_OPEN_def ascii_def)
  with shorter [OF r] show "(rest, c # cs) \<in> measure length"
    by simp
qed simp_all

text \<open>
  \<^verbatim>\<open>oauth2_pattern = re.compile(r'OAuth2 ......', re.IGNORECASE)\<close> (the six dots stand
  for the code points U+4EE4 U+724C U+5237 U+65B0 U+6210 U+529F) and
  \<^verbatim>\<open>oauth2_pattern.sub('', output)\<close>: a literal of 13 code points matched without regard to case. The cased characters of the
  literal are O, A, u, t, h; the only code points whose lower case is one of o, a, u, t, h
  are these letters and their ASCII capitals, so a pattern character matches a subject
  character exactly when their ASCII lower cases are equal.
\<close>

definition OAUTH2_NOTICE :: pystr where
  "OAUTH2_NOTICE = ascii ''OAuth2 '' @ [20196, 29260, 21047, 26032, 25104, 21151]"

fun ci_prefix :: "pystr \<Rightarrow> pystr \<Rightarrow> bool" where
  "ci_prefix [] s = True"
| "ci_prefix (p # ps) [] = False"
| "ci_prefix (p # ps) (c # cs) = (ascii_lower_cp p = ascii_lower_cp c \<and> ci_prefix ps cs)"

function sub_oauth2 :: "pystr \<Rightarrow> pystr" where
  "sub_oauth2 [] = []"
| "sub_oauth2 (c # cs) =
     (if ci_prefix OAUTH2_NOTICE (c # cs) then sub_oauth2 (drop (length OAUTH2_NOTICE) (c # cs))
      else c # sub_oauth2 cs)"
  by pat_completeness auto
termination
  by (relation "measure length") (simp_all add: OAUTH2_NOTICE_def ascii_def)

text \<open>
  Lines 117 and 121 of \<^verbatim>\<open>execute_chat\<close>: both substitutions, each followed by
  \<^verbatim>\<open>.strip()\<close>.
\<close>

definition clean_output :: "pystr \<Rightarrow> pystr" where
  "clean_output output = strip (sub_oauth2 (strip (sub_execution_info output)))"

section \<open>chat\_executor.py: ChatExecutor\<close>

text \<open>
  The exceptions the handlers of the repository tell apart; \<open>OtherException\<close> is every
  other instance of \<^verbatim>\<open>Exception\<close>. \<open>TimeoutExpired\<close> is \<^verbatim>\<open>subprocess.TimeoutExpired\<close>,
  \<open>FutureTimeoutError\<close> is \<^verbatim>\<open>concurrent.futures.TimeoutError\<close>. A function that may raise
  returns \<open>exn + 'a\<close>, with \<open>Inl\<close> for the exception that leaves it. What the calls
  modelled here raise (\<^verbatim>\<open>subprocess.run\<close>, \<^verbatim>\<open>Future.result\<close>, \<^verbatim>\<open>json.loads\<close>,
  \<^verbatim>\<open>json.dumps\<close>, \<^verbatim>\<open>WebSocketApp.send\<close>) is an instance of \<^verbatim>\<open>Exception\<close>; the
  interruption of the process from outside (\<^verbatim>\<open>KeyboardInterrupt\<close>, \<^verbatim>\<open>SystemExit\<close>) is not
  an outcome of these calls and is not modelled.
\<close>

datatype exn = TimeoutExpired | FileNotFoundError | FutureTimeoutError | JSONDecodeError
  | OtherException

text \<open>
  \<^verbatim>\<open>self.friendly_responses\<close> (line 39), the reply of the \<^verbatim>\<open>FileNotFoundError\<close> handler
  (line 144) and the two replies of \<^verbatim>\<open>execute_chat_async\<close> (lines 163 and 165), as code
  points.
\<close>

definition friendly_responses :: "pystr list" where
  "friendly_responses =
    [[25265, 27465, 65292, 25105, 26377, 20123, 36855, 31946, 65292, 33021, 20877, 35828,
      19968, 36941, 21527, 65311],
     [21999, 46, 46, 46, 32, 21018, 25165, 22909, 20687, 36208, 31070, 20102, 65292, 33021,
      37325, 22797, 19968, 19979, 21527, 65311],
     [25105, 27809, 22826, 26126, 30333, 65292, 25442, 31181, 35828, 27861, 35797, 35797,
      65311],
     [25265, 27465, 65292, 25105, 27809, 21548, 28165, 26970, 65292, 33021, 20877, 35828,
      19968, 27425, 21527, 65311],
     [36825, 20010, 38382, 39064, 26377, 28857, 22797, 26434, 65292, 25105, 38656, 35201,
      24819, 24819, 46, 46, 46]]"

definition NOT_FOUND_REPLY :: pystr where
  "NOT_FOUND_REPLY = [65, 73, 21629, 20196, 26410, 23433, 35013, 65292, 35831, 26816, 26597,
     37197, 32622, 12290]"

definition ASYNC_TIMEOUT_REPLY :: pystr where
  "ASYNC_TIMEOUT_REPLY = [22788, 29702, 36229, 26102, 65292, 35831, 31245, 21518, 20877,
     35797, 12290]"

definition ASYNC_FAULT_REPLY :: pystr where
  "ASYNC_FAULT_REPLY = [25265, 27465, 65292, 20986, 20102, 28857, 38382, 39064, 65292, 35831,
     37325, 35797, 12290]"

text \<open>
  \<^verbatim>\<open>error_keywords\<close> (line 124): error, U+9519 U+8BEF, failed, U+5931 U+8D25, exception,
  U+5F02 U+5E38.
\<close>

definition error_keywords :: "pystr list" where
  "error_keywords = [ascii ''error'', [38169, 35823], ascii ''failed'', [22833, 36133],
     ascii ''exception'', [24322, 24120]]"

text \<open>
  The first argument of each \<^verbatim>\<open>self._log_error(...)\<close> call. \<^verbatim>\<open>_log_error\<close> appends to the
  file \<^verbatim>\<open>DEBUG_LOG_PATH\<close> when that is set, swallows every failure of its own and returns
  nothing, so it has no part in the reply; the model keeps the tag of the call.
\<close>

datatype error_type = OUTPUT_ERROR | EMPTY_OUTPUT | SHORT_OUTPUT | TIMEOUT | NOT_FOUND
  | EXCEPTION

text \<open>
  \<^verbatim>\<open>subprocess.run(['iflow', '-p', prompt], capture_output=True, text=True, timeout=...)\<close>
  is the environment: it completes with the captured standard output (the exit status is
  not looked at) or raises. \<^verbatim>\<open>_call_ai\<close> returns \<^verbatim>\<open>result.stdout.strip()\<close>.
\<close>

datatype run_outcome = Completed pystr | RunRaises exn

fun call_ai :: "run_outcome \<Rightarrow> exn + pystr" where
  "call_ai (Completed stdout) = Inr (strip stdout)"
| "call_ai (RunRaises e) = Inl e"

text \<open>
  \<^verbatim>\<open>any(kw in output.lower() for kw in error_keywords)\<close>: \<^verbatim>\<open>in\<close> on strings is
  contiguous containment.
\<close>

definition has_error_keyword :: "(pystr \<Rightarrow> pystr) \<Rightarrow> pystr \<Rightarrow> bool" where
  "has_error_keyword lower output = list_ex (\<lambda>kw. sublist kw (lower output)) error_keywords"

text \<open>
  Lines 123 to 137 of \<^verbatim>\<open>execute_chat\<close>, on the filtered output: the keyword check, then
  \<^verbatim>\<open>not output\<close>, then \<^verbatim>\<open>len(output) < 5\<close>. The result is the tag logged (if any) and
  the reply.
\<close>

definition check_output :: "(pystr \<Rightarrow> pystr) \<Rightarrow> pystr \<Rightarrow> error_type option \<times> pystr" where
  "check_output lower output =
     (if has_error_keyword lower output then (Some OUTPUT_ERROR, friendly_responses ! 0)
      else if output = [] then (Some EMPTY_OUTPUT, friendly_responses ! 1)
      else if length output < 5 then (Some SHORT_OUTPUT, friendly_responses ! 2)
      else (None, output))"

text \<open>
  \<^verbatim>\<open>execute_chat\<close>: the \<^verbatim>\<open>try\<close> body, then the three handlers in the order of the source
  (\<^verbatim>\<open>subprocess.TimeoutExpired\<close>, \<^verbatim>\<open>FileNotFoundError\<close>, \<^verbatim>\<open>Exception\<close>). Nothing in the
  body after \<^verbatim>\<open>_call_ai\<close> raises. The prompt and the user id only reach the subprocess and
  the log, so the model starts at the outcome of the subprocess.
\<close>

definition execute_chat ::
  "(pystr \<Rightarrow> pystr) \<Rightarrow> run_outcome \<Rightarrow> exn + (error_type option \<times> pystr)" where
  "execute_chat lower run =
     (case call_ai run of
        Inr output \<Rightarrow> Inr (check_output lower (clean_output output))
      | Inl TimeoutExpired \<Rightarrow> Inr (Some TIMEOUT, friendly_responses ! 3)
      | Inl FileNotFoundError \<Rightarrow> Inr (Some NOT_FOUND, NOT_FOUND_REPLY)
      | Inl _ \<Rightarrow> Inr (Some EXCEPTION, friendly_responses ! 0))"

text \<open>
  \<^verbatim>\<open>execute_chat_async(prompt, user_id, callback)\<close>. Every statement of its body runs in
  the thread that calls it; the pool thread runs \<^verbatim>\<open>execute_chat\<close> only. The model returns
  what the calling thread does, in order, and the exception that leaves the call, if any.

  \<^item> \<open>Submit\<close>: \<^verbatim>\<open>self.executor.submit(...)\<close>, which raises \<^verbatim>\<open>RuntimeError\<close> once
    \<^verbatim>\<open>shutdown()\<close> has been called (\<open>shut\<close>); the call is outside the \<^verbatim>\<open>try\<close>.
  \<^item> \<open>WaitResult\<close>: \<^verbatim>\<open>future.result(timeout=self.timeout)\<close>, which blocks the calling thread
    until the work is done or the deadline passes. Its outcome is \<open>wait\<close>: the result of
    the work (returned, or re-raised if the work raised), \<^verbatim>\<open>TimeoutError\<close>, or another fault.
  \<^item> \<open>Callback r uid\<close>: \<^verbatim>\<open>callback(r, uid)\<close>. The callback is the caller's code and may
    raise: \<open>cb n r uid\<close> is what its invocation number \<open>n\<close> (from 0) does, \<open>None\<close> for a
    normal return.
\<close>

datatype action = Submit | WaitResult | Callback pystr int

datatype wait_outcome = ResultReady | WaitTimeout | WaitRaises exn

type_synonym callback = "nat \<Rightarrow> pystr \<Rightarrow> int \<Rightarrow> exn option"

text \<open>
  The two handlers of \<^verbatim>\<open>execute_chat_async\<close> (lines 162 to 165), entered with the
  exception \<open>e\<close> after \<open>n\<close> invocations of the callback. An exception of the callback
  inside a handler leaves the call.
\<close>

definition async_handlers :: "exn \<Rightarrow> callback \<Rightarrow> nat \<Rightarrow> int \<Rightarrow> action list \<times> exn option" where
  "async_handlers e cb n uid =
     (if e = FutureTimeoutError
      then ([Callback ASYNC_TIMEOUT_REPLY uid], cb n ASYNC_TIMEOUT_REPLY uid)
      else ([Callback ASYNC_FAULT_REPLY uid], cb n ASYNC_FAULT_REPLY uid))"

definition execute_chat_async ::
  "(pystr \<Rightarrow> pystr) \<Rightarrow> bool \<Rightarrow> run_outcome \<Rightarrow> wait_outcome \<Rightarrow> int \<Rightarrow> callback
     \<Rightarrow> action list \<times> exn option" where
  "execute_chat_async lower shut run wait uid cb =
     (if shut then ([Submit], Some OtherException)
      else
        (case (case wait of
                 ResultReady \<Rightarrow> map_sum id snd (execute_chat lower run)
               | WaitTimeout \<Rightarrow> Inl FutureTimeoutError
               | WaitRaises e \<Rightarrow> Inl e) of
           Inr result \<Rightarrow>
             (case cb 0 result uid of
                None \<Rightarrow> ([Submit, WaitResult, Callback result uid], None)
              | Some e \<Rightarrow>
                  (let (acts, out) = async_handlers e cb 1 uid
                   in ([Submit, WaitResult, Callback result uid] @ acts, out)))
         | Inl e \<Rightarrow>
             (let (acts, out) = async_handlers e cb 0 uid
              in ([Submit, WaitResult] @ acts, out))))"

definition callbacks :: "action list \<Rightarrow> (pystr \<times> int) list" where
  "callbacks acts = concat (map (\<lambda>a. case a of Callback r uid \<Rightarrow> [(r, uid)] | _ \<Rightarrow> []) acts)"

text \<open>Two callbacks for concrete inputs: one that always returns, one that raises the first
  time it is invoked and returns afterwards.\<close>

definition cb_returns :: callback where
  "cb_returns n r uid = None"

definition cb_raises_first :: callback where
  "cb_raises_first n r uid = (if n = 0 then Some OtherException else None)"

section \<open>ws\_client.py: WSClient\<close>

text \<open>
  The fields of \<^verbatim>\<open>WSClient\<close> that change: \<^verbatim>\<open>self.ws\<close> (the \<^verbatim>\<open>WebSocketApp\<close>, or
  \<^verbatim>\<open>None\<close>), \<^verbatim>\<open>self.connected\<close> and \<^verbatim>\<open>self._should_stop\<close>. A handle is the identity of
  a \<^verbatim>\<open>WebSocketApp\<close> object. Each block under \<^verbatim>\<open>with self._lock\<close> is one step on the
  state. The callbacks of the user (\<^verbatim>\<open>on_connect\<close>, \<^verbatim>\<open>on_disconnect\<close>, \<^verbatim>\<open>on_error\<close>) run
  after the block and do not touch these fields.
\<close>

type_synonym handle = nat

record client =
  ws :: "handle option"
  connected :: bool
  should_stop :: bool

definition init_client :: client where
  "init_client = \<lparr>ws = None, connected = False, should_stop = False\<rparr>"

definition is_connected :: "client \<Rightarrow> bool" where
  "is_connected s = connected s"

definition on_open :: "handle \<Rightarrow> client \<Rightarrow> client" where
  "on_open h s = s\<lparr>connected := True, ws := Some h\<rparr>"

definition on_error :: "client \<Rightarrow> client" where
  "on_error s = s\<lparr>connected := False\<rparr>"

definition on_close :: "client \<Rightarrow> client" where
  "on_close s = s\<lparr>connected := False, ws := None\<rparr>"

text \<open>
  One iteration of the loop of \<^verbatim>\<open>connect\<close>: when \<^verbatim>\<open>_should_stop\<close> is not set, a new
  \<^verbatim>\<open>WebSocketApp\<close> is stored in \<^verbatim>\<open>self.ws\<close> (line 151) before \<^verbatim>\<open>run_forever\<close> opens the
  connection; the callbacks that \<^verbatim>\<open>run_forever\<close> makes are steps of their own.
\<close>

definition connect_iteration :: "handle \<Rightarrow> client \<Rightarrow> client" where
  "connect_iteration h s = (if should_stop s then s else s\<lparr>ws := Some h\<rparr>)"

text \<open>
  \<^verbatim>\<open>disconnect\<close>: \<^verbatim>\<open>_should_stop\<close> is set, then under the lock \<^verbatim>\<open>self.ws.close()\<close> is
  called if \<^verbatim>\<open>self.ws\<close> is set, then \<^verbatim>\<open>connected\<close> is cleared. \<^verbatim>\<open>self.ws\<close> is left as it
  is. If \<^verbatim>\<open>close()\<close> raises (\<open>close_raises\<close>), the exception leaves \<^verbatim>\<open>disconnect\<close> before
  the flag is cleared.
\<close>

definition disconnect :: "bool \<Rightarrow> client \<Rightarrow> client" where
  "disconnect close_raises s =
     (if ws s \<noteq> None \<and> close_raises then s\<lparr>should_stop := True\<rparr>
      else s\<lparr>should_stop := True, connected := False\<rparr>)"

datatype event = ConnectIteration handle | OnOpen handle | OnError | OnClose
  | Disconnect bool

fun step :: "event \<Rightarrow> client \<Rightarrow> client" where
  "step (ConnectIteration h) s = connect_iteration h s"
| "step (OnOpen h) s = on_open h s"
| "step OnError s = on_error s"
| "step OnClose s = on_close s"
| "step (Disconnect close_raises) s = disconnect close_raises s"

fun run_events :: "event list \<Rightarrow> client \<Rightarrow> client" where
  "run_events [] s = s"
| "run_events (e # es) s = run_events es (step e s)"

text \<open>
  \<^verbatim>\<open>send(data)\<close>. \<^verbatim>\<open>is_connected()\<close> takes the lock and releases it; the \<^verbatim>\<open>try\<close> body
  takes it again, so the steps \<open>between\<close> of other threads may run in between (none, when
  the list is empty). Under the second lock, \<^verbatim>\<open>if self.ws: self.ws.send(json.dumps(data))\<close>.
  \<open>dumps\<close> is \<^verbatim>\<open>json.dumps\<close> (it raises on data that cannot be serialised), \<open>transport h f\<close>
  is what \<^verbatim>\<open>WebSocketApp.send\<close> does with the frame \<open>f\<close> on the handle \<open>h\<close>: \<open>None\<close> when the
  write succeeds, the exception otherwise. The result is what \<^verbatim>\<open>send\<close> returns or raises,
  and the writes handed to the transport.
\<close>

definition send_try_body ::
  "client \<Rightarrow> ('d \<Rightarrow> exn + pystr) \<Rightarrow> (handle \<Rightarrow> pystr \<Rightarrow> exn option) \<Rightarrow> 'd
     \<Rightarrow> (exn + bool) \<times> (handle \<times> pystr) list" where
  "send_try_body s dumps transport data =
     (case ws s of
        None \<Rightarrow> (Inr True, [])
      | Some h \<Rightarrow>
          (case dumps data of
             Inl e \<Rightarrow> (Inl e, [])
           | Inr frame \<Rightarrow>
               (case transport h frame of
                  None \<Rightarrow> (Inr True, [(h, frame)])
                | Some e \<Rightarrow> (Inl e, [(h, frame)]))))"

definition send ::
  "client \<Rightarrow> event list \<Rightarrow> ('d \<Rightarrow> exn + pystr) \<Rightarrow> (handle \<Rightarrow> pystr \<Rightarrow> exn option) \<Rightarrow> 'd
     \<Rightarrow> (exn + bool) \<times> (handle \<times> pystr) list" where
  "send s between dumps transport data =
     (if \<not> is_connected s then (Inr False, [])
      else
        (case send_try_body (run_events between s) dumps transport data of
           (Inr b, writes) \<Rightarrow> (Inr b, writes)
         | (Inl e, writes) \<Rightarrow> (Inr False, writes)))"



section \<open>Concrete inputs\<close>

text \<open>
  An output in which deleting the inner metadata block leaves a new, complete one behind.
\<close>

definition NESTED_OUTPUT :: pystr where
  "NESTED_OUTPUT =
     ascii ''<Execution <Execution Info>x</Execution Info>Info>hello world</Execution Info>''"

text \<open>
  Stand-ins for the environment of \<^verbatim>\<open>WSClient\<close> at concrete inputs, with the data of a
  frame given as the text of its JSON form: a serialiser and a parser that succeed, a
  transport whose write succeeds and one whose write raises, and a message handler that
  raises the exception it is given.
\<close>

definition dumps_ok :: "pystr \<Rightarrow> exn + pystr" where
  "dumps_ok d = Inr d"


definition transport_ok :: "handle \<Rightarrow> pystr \<Rightarrow> exn option" where
  "transport_ok h f = None"



lemmas eval_defs = clean_output_def strip_def isspace_def EXEC_OPEN_def EXEC_CLOSE_def ascii_def
  OAUTH2_NOTICE_def ascii_lower_cp_def ascii_lower_def has_error_keyword_def error_keywords_def
  sublist_code check_output_def execute_chat_def

lemmas client_defs = init_client_def is_connected_def on_open_def on_error_def on_close_def
  connect_iteration_def disconnect_def

section \<open>The replies of execute\_chat\<close>

lemma check_output_reply:
  "snd (check_output lower out) \<noteq> [] \<and>
   (snd (check_output lower out) \<in> set friendly_responses \<or> snd (check_output lower out) = out)"
  by (simp add: check_output_def friendly_responses_def)

lemma execute_chat_returns: "\<exists>tag reply. execute_chat lower run = Inr (tag, reply)"
proof (cases run)
  case (Completed stdout)
  then show ?thesis
    by (cases "check_output lower (clean_output (strip stdout))") (simp add: execute_chat_def)
next
  case (RunRaises e)
  then show ?thesis by (cases e) (simp_all add: execute_chat_def)
qed

text \<open>
  C1. Whatever the subprocess does (it completes with any output, it times out, the command
  is not found, it raises anything else), \<^verbatim>\<open>execute_chat\<close> returns and raises nothing, and
  the string it returns is not empty: it is the filtered output, one of
  \<^verbatim>\<open>friendly_responses\<close>, or the reply of the \<^verbatim>\<open>FileNotFoundError\<close> handler.
\<close>

theorem execute_chat_always_replies:
  "\<exists>tag reply. execute_chat lower run = Inr (tag, reply) \<and> reply \<noteq> [] \<and>
     (reply \<in> set friendly_responses \<or> reply = NOT_FOUND_REPLY \<or>
      (\<exists>stdout. run = Completed stdout \<and> reply = clean_output (strip stdout)))"
proof (cases run)
  case (Completed stdout)
  obtain tag reply where c: "check_output lower (clean_output (strip stdout)) = (tag, reply)"
    by (cases "check_output lower (clean_output (strip stdout))")
  with check_output_reply [of lower "clean_output (strip stdout)"]
  have "reply \<noteq> []" and "reply \<in> set friendly_responses \<or> reply = clean_output (strip stdout)"
    by simp_all
  with Completed c show ?thesis
    by (auto simp: execute_chat_def)
next
  case (RunRaises e)
  then show ?thesis
    by (cases e) (simp_all add: execute_chat_def friendly_responses_def NOT_FOUND_REPLY_def)
qed

theorem execute_chat_always_replies_witness:
  "\<exists>tag reply. execute_chat ascii_lower (RunRaises FileNotFoundError) = Inr (tag, reply)
     \<and> reply \<noteq> []"
  using execute_chat_always_replies [of ascii_lower "RunRaises FileNotFoundError"] by blast

text \<open>
  C4. The keyword check comes before the checks for an empty and for a short output: when
  the filtered output has fewer than 5 characters and its lower-cased form contains one of
  \<^verbatim>\<open>error_keywords\<close>, the call is logged as \<^verbatim>\<open>OUTPUT_ERROR\<close> and answered with
  \<^verbatim>\<open>friendly_responses[0]\<close>, not as \<^verbatim>\<open>SHORT_OUTPUT\<close> with \<^verbatim>\<open>friendly_responses[2]\<close>.
\<close>

theorem keyword_before_length:
  assumes "length (clean_output (strip raw)) < 5"
    and "has_error_keyword lower (clean_output (strip raw))"
  shows "execute_chat lower (Completed raw) = Inr (Some OUTPUT_ERROR, friendly_responses ! 0)
    \<and> execute_chat lower (Completed raw) \<noteq> Inr (Some SHORT_OUTPUT, friendly_responses ! 2)"
  using assms by (simp add: execute_chat_def check_output_def)

text \<open>The witness is the output U+0020 U+9519 U+8BEF U+0021: the second keyword and an
  exclamation mark, three characters once stripped.\<close>

theorem keyword_before_length_witness:
  "length (clean_output (strip [32, 38169, 35823, 33])) < 5
   \<and> has_error_keyword ascii_lower (clean_output (strip [32, 38169, 35823, 33]))
   \<and> execute_chat ascii_lower (Completed [32, 38169, 35823, 33])
       = Inr (Some OUTPUT_ERROR, friendly_responses ! 0)"
proof -
  have l: "length (clean_output (strip [32, 38169, 35823, 33])) < 5"
    by (simp add: eval_defs)
  have k: "has_error_keyword ascii_lower (clean_output (strip [32, 38169, 35823, 33]))"
    by (simp add: eval_defs)
  from keyword_before_length [OF l k] l k show ?thesis
    by simp
qed

section \<open>Filtering twice\<close>

lemma dropWhile_rev_stable:
  "dropWhile P (rev (dropWhile P (rev (dropWhile P s)))) = rev (dropWhile P (rev (dropWhile P s)))"
proof (cases "dropWhile P (rev (dropWhile P s)) = []")
  case True
  show ?thesis unfolding True by simp
next
  case False
  define a where "a = dropWhile P s"
  define b where "b = dropWhile P (rev a)"
  from False have b: "b \<noteq> []" by (simp add: a_def b_def)
  then have a: "a \<noteq> []" by (auto simp: b_def)
  have "rev a = takeWhile P (rev a) @ b"
    by (simp add: b_def)
  then have "last (rev a) = last b"
    using b by (metis last_appendR)
  then have "last b = hd a"
    using a by (simp add: last_rev)
  moreover have "\<not> P (hd a)"
    using a unfolding a_def by (rule hd_dropWhile)
  ultimately have "\<not> P (hd (rev b))"
    using b by (simp add: hd_rev)
  then have "dropWhile P (rev b) = rev b"
    using b by (cases "rev b") simp_all
  then show ?thesis by (simp add: a_def b_def)
qed

lemma strip_strip: "strip (strip s) = strip s"
  by (simp add: strip_def dropWhile_rev_stable)

lemma strip_clean_output: "strip (clean_output s) = clean_output s"
  by (simp add: clean_output_def strip_strip)

lemma sub_execution_info_unchanged:
  "\<not> sublist EXEC_OPEN s \<Longrightarrow> sub_execution_info s = s"
proof (induction s)
  case Nil
  then show ?case by simp
next
  case (Cons c cs)
  then have "\<not> prefix EXEC_OPEN (c # cs)" and "\<not> sublist EXEC_OPEN cs"
    by (auto simp: sublist_Cons_right)
  with Cons.IH show ?case by simp
qed

lemma clean_output_unchanged:
  assumes "strip t = t" and "sub_execution_info t = t" and "sub_oauth2 t = t"
  shows "clean_output t = t"
  using assms by (simp add: clean_output_def)

lemma clean_friendly:
  "clean_output (friendly_responses ! 0) = friendly_responses ! 0"
  "clean_output (friendly_responses ! 1) = friendly_responses ! 1"
  "clean_output (friendly_responses ! 2) = friendly_responses ! 2"
  by (simp_all add: eval_defs friendly_responses_def)

text \<open>
  C8, as the code has it. When the filtered output \<open>t\<close> of a raw output has at least 5
  characters and its lower-cased form contains no keyword, \<^verbatim>\<open>execute_chat\<close> returns \<open>t\<close>
  unchanged. Running \<^verbatim>\<open>execute_chat\<close> on \<open>t\<close> again returns \<open>t\<close> exactly when the filters
  leave \<open>t\<close> as it is, which is the case whenever neither substitution finds a match in \<open>t\<close>.
  Each substitution is a single pass, so what it leaves behind may itself contain a metadata
  block or the notice, and a second run then returns something else.
\<close>

theorem clean_text_returned_and_reclassified:
  assumes "t = clean_output (strip raw)"
    and "5 \<le> length t"
    and "\<not> has_error_keyword lower t"
  shows "execute_chat lower (Completed raw) = Inr (None, t)
    \<and> ((\<exists>tag. execute_chat lower (Completed t) = Inr (tag, t)) \<longleftrightarrow> clean_output t = t)
    \<and> (sub_execution_info t = t \<and> sub_oauth2 t = t
          \<longrightarrow> execute_chat lower (Completed t) = Inr (None, t))"
proof -
  have first: "execute_chat lower (Completed raw) = Inr (None, t)"
    using assms by (auto simp: execute_chat_def check_output_def)
  have st: "strip t = t"
    using assms(1) by (simp add: strip_clean_output)
  have again: "execute_chat lower (Completed t) = Inr (check_output lower (clean_output t))"
    by (simp add: execute_chat_def st)
  have fixed: "execute_chat lower (Completed t) = Inr (None, t)" if "clean_output t = t"
    using that assms(2,3) by (auto simp: again check_output_def)
  have only_if: "clean_output t = t" if "execute_chat lower (Completed t) = Inr (tag, t)" for tag
  proof -
    from that have "check_output lower (clean_output t) = (tag, t)"
      by (simp add: again)
    then consider "t = friendly_responses ! 0" | "t = friendly_responses ! 1"
      | "t = friendly_responses ! 2" | "t = clean_output t"
      by (auto simp: check_output_def split: if_splits)
    then show ?thesis
      by cases (use clean_friendly in simp_all)
  qed
  have unchanged: "clean_output t = t" if "sub_execution_info t = t" and "sub_oauth2 t = t"
    using st that by (rule clean_output_unchanged)
  from first fixed only_if unchanged show ?thesis
    by blast
qed

theorem clean_text_returned_and_reclassified_witness:
  "5 \<le> length (clean_output (strip (ascii ''  hello world  '')))
   \<and> \<not> has_error_keyword ascii_lower (clean_output (strip (ascii ''  hello world  '')))
   \<and> execute_chat ascii_lower (Completed (ascii ''  hello world  ''))
       = Inr (None, ascii ''hello world'')
   \<and> execute_chat ascii_lower (Completed (ascii ''hello world''))
       = Inr (None, ascii ''hello world'')"
proof -
  have t: "clean_output (strip (ascii ''  hello world  '')) = ascii ''hello world''"
    by (simp add: eval_defs)
  have l: "5 \<le> length (ascii ''hello world'')"
    by (simp add: ascii_def)
  have k: "\<not> has_error_keyword ascii_lower (ascii ''hello world'')"
    by (simp add: eval_defs)
  have u: "sub_execution_info (ascii ''hello world'') = ascii ''hello world''
      \<and> sub_oauth2 (ascii ''hello world'') = ascii ''hello world''"
    by (simp add: eval_defs)
  from clean_text_returned_and_reclassified [OF t [symmetric] l k] t l k u show ?thesis
    by simp
qed

text \<open>
  The claim as stated fails at \<open>NESTED_OUTPUT\<close>: the filtered output is
  \<^verbatim>\<open><Execution Info>hello world</Execution Info>\<close>, 44 characters without a keyword, and it is
  returned; run on that text, \<^verbatim>\<open>execute_chat\<close> deletes all of it and answers with
  \<^verbatim>\<open>friendly_responses[1]\<close>.
\<close>

theorem reclassification_changes_text:
  "execute_chat ascii_lower (Completed NESTED_OUTPUT)
     = Inr (None, ascii ''<Execution Info>hello world</Execution Info>'')
   \<and> 5 \<le> length (ascii ''<Execution Info>hello world</Execution Info>'')
   \<and> \<not> has_error_keyword ascii_lower (ascii ''<Execution Info>hello world</Execution Info>'')
   \<and> execute_chat ascii_lower (Completed (ascii ''<Execution Info>hello world</Execution Info>''))
     = Inr (Some EMPTY_OUTPUT, friendly_responses ! 1)
   \<and> friendly_responses ! 1 \<noteq> ascii ''<Execution Info>hello world</Execution Info>''"
  by (simp add: eval_defs NESTED_OUTPUT_def friendly_responses_def)

section \<open>execute\_chat\_async\<close>

lemma async_handlers_callbacks:
  "callbacks (fst (async_handlers e cb n uid))
     = [(if e = FutureTimeoutError then ASYNC_TIMEOUT_REPLY else ASYNC_FAULT_REPLY, uid)]"
  by (simp add: async_handlers_def callbacks_def)

lemma async_trace_prefix:
  assumes "\<not> shut"
  shows "take 2 (fst (execute_chat_async lower shut run wait uid cb)) = [Submit, WaitResult]"
  using assms
  by (auto simp: execute_chat_async_def
      split: sum.splits option.splits prod.splits wait_outcome.splits)

text \<open>
  The callback is invoked once when its first invocation returns, and also when the wait
  ends with the deadline or another fault (the handler's invocation is then the only one).
\<close>

lemma async_callback_once:
  assumes "\<not> shut" and "execute_chat lower run = Inr (tag, reply)"
    and "wait = ResultReady \<longrightarrow> cb 0 reply uid = None"
  shows "length (callbacks (fst (execute_chat_async lower shut run wait uid cb))) = 1"
proof (cases wait)
  case ResultReady
  with assms show ?thesis
    by (simp add: execute_chat_async_def callbacks_def)
next
  case WaitTimeout
  with assms(1) show ?thesis
    by (simp add: execute_chat_async_def async_handlers_def callbacks_def)
next
  case (WaitRaises e)
  with assms(1) show ?thesis
    by (simp add: execute_chat_async_def async_handlers_def callbacks_def)
qed

text \<open>
  The first \<^verbatim>\<open>callback(result, user_id)\<close> is inside the \<^verbatim>\<open>try\<close>: when it raises, a
  handler runs and invokes the callback a second time, with one of the two fixed replies.
\<close>

lemma async_callback_twice:
  assumes "\<not> shut" and "execute_chat lower run = Inr (tag, reply)"
    and "cb 0 reply uid = Some e"
  shows "callbacks (fst (execute_chat_async lower shut run ResultReady uid cb))
     = [(reply, uid),
        (if e = FutureTimeoutError then ASYNC_TIMEOUT_REPLY else ASYNC_FAULT_REPLY, uid)]"
  using assms by (simp add: execute_chat_async_def async_handlers_def callbacks_def)

text \<open>
  C2 says that the callback is invoked exactly once, also when it raises on its first
  invocation. At the input below (the work completes with \<^verbatim>\<open>hello world\<close>, the callback
  raises the first time) the code invokes it twice: with the result, then with the reply of
  the \<^verbatim>\<open>except Exception\<close> handler.
\<close>

theorem callback_invoked_twice_when_it_raises:
  "execute_chat_async ascii_lower False (Completed (ascii ''hello world'')) ResultReady 7
       cb_raises_first
     = ([Submit, WaitResult, Callback (ascii ''hello world'') 7, Callback ASYNC_FAULT_REPLY 7],
        None)
   \<and> length (callbacks (fst (execute_chat_async ascii_lower False
         (Completed (ascii ''hello world'')) ResultReady 7 cb_raises_first))) = 2"
proof -
  have "execute_chat ascii_lower (Completed (ascii ''hello world''))
      = Inr (None, ascii ''hello world'')"
    by (simp add: eval_defs)
  then show ?thesis
    by (simp add: execute_chat_async_def async_handlers_def callbacks_def cb_raises_first_def)
qed

text \<open>
  C5 says that the calling thread returns at once and that the callback runs in a pool
  thread. In the code the calling thread itself waits in \<^verbatim>\<open>future.result\<close> and then
  invokes the callback: at the input below its actions are the submission, the wait and
  the callback.
\<close>

theorem caller_waits_and_runs_callback:
  "fst (execute_chat_async ascii_lower False (RunRaises OtherException) ResultReady 7 cb_returns)
     = [Submit, WaitResult, Callback (friendly_responses ! 0) 7]"
  by (simp add: execute_chat_async_def execute_chat_def cb_returns_def)

text \<open>
  C6, as the code has it. A deadline that passes in the subprocess is answered by
  \<^verbatim>\<open>execute_chat\<close> with \<^verbatim>\<open>friendly_responses[3]\<close>; a deadline that passes in
  \<^verbatim>\<open>future.result\<close> reaches the callback as the reply of line 163. The two strings are
  different. When the subprocess times out and the work still completes within the wait,
  the callback first receives \<^verbatim>\<open>friendly_responses[3]\<close>.
\<close>

theorem sync_and_async_timeout_replies:
  "execute_chat lower (RunRaises TimeoutExpired) = Inr (Some TIMEOUT, friendly_responses ! 3)
   \<and> callbacks (fst (execute_chat_async lower False run WaitTimeout uid cb))
       = [(ASYNC_TIMEOUT_REPLY, uid)]
   \<and> friendly_responses ! 3 \<noteq> ASYNC_TIMEOUT_REPLY
   \<and> hd (callbacks (fst (execute_chat_async lower False (RunRaises TimeoutExpired) ResultReady
         uid cb))) = (friendly_responses ! 3, uid)"
proof -
  have a: "execute_chat lower (RunRaises TimeoutExpired)
      = Inr (Some TIMEOUT, friendly_responses ! 3)"
    by (simp add: execute_chat_def)
  have b: "callbacks (fst (execute_chat_async lower False run WaitTimeout uid cb))
       = [(ASYNC_TIMEOUT_REPLY, uid)]"
    by (simp add: execute_chat_async_def async_handlers_def callbacks_def)
  have c: "friendly_responses ! 3 \<noteq> ASYNC_TIMEOUT_REPLY"
    by (simp add: friendly_responses_def ASYNC_TIMEOUT_REPLY_def)
  have d: "hd (callbacks (fst (execute_chat_async lower False (RunRaises TimeoutExpired)
         ResultReady uid cb))) = (friendly_responses ! 3, uid)"
    by (simp add: execute_chat_async_def a callbacks_def split: option.splits prod.splits)
  from a b c d show ?thesis by blast
qed

theorem sync_and_async_timeout_replies_witness:
  "callbacks (fst (execute_chat_async ascii_lower False (Completed []) WaitTimeout 7 cb_returns))
       = [(ASYNC_TIMEOUT_REPLY, 7)]
   \<and> hd (callbacks (fst (execute_chat_async ascii_lower False (RunRaises TimeoutExpired)
         ResultReady 7 cb_returns))) = (friendly_responses ! 3, 7)"
  using sync_and_async_timeout_replies [of ascii_lower "Completed []" 7 cb_returns] by blast

text \<open>
  The claim as stated fails: the reply to a timeout of the subprocess and the reply the
  callback receives when the wait times out are not the same string.
\<close>

theorem timeout_reply_mismatch:
  "execute_chat ascii_lower (RunRaises TimeoutExpired) = Inr (Some TIMEOUT, friendly_responses ! 3)
   \<and> callbacks (fst (execute_chat_async ascii_lower False (RunRaises TimeoutExpired) WaitTimeout 7
         cb_returns)) = [(ASYNC_TIMEOUT_REPLY, 7)]
   \<and> friendly_responses ! 3 \<noteq> ASYNC_TIMEOUT_REPLY"
  by (simp add: execute_chat_def execute_chat_async_def async_handlers_def callbacks_def
      friendly_responses_def ASYNC_TIMEOUT_REPLY_def)

section \<open>WSClient: handle and flag\<close>






section \<open>WSClient: send\<close>






text \<open>
  C9. When \<^verbatim>\<open>connected\<close> is true at the check of \<^verbatim>\<open>is_connected()\<close> and \<^verbatim>\<open>ws\<close> is \<^verbatim>\<open>None\<close>
  when the lock is taken for the write, \<^verbatim>\<open>send\<close> hands nothing to the transport and returns
  \<^verbatim>\<open>True\<close>. With no step in between this is a state with the flag set and no handle; with a
  step in between it is a connected client that \<^verbatim>\<open>_on_close\<close> closes after the check.
\<close>

theorem send_without_handle_reports_success:
  assumes "connected s" and "ws (run_events between s) = None"
  shows "send s between dumps transport data = (Inr True, [])"
  using assms by (simp add: send_def is_connected_def send_try_body_def)

theorem send_without_handle_reports_success_witness:
  "connected \<lparr>ws = None, connected = True, should_stop = False\<rparr>
   \<and> ws (run_events [] \<lparr>ws = None, connected = True, should_stop = False\<rparr>) = None
   \<and> send \<lparr>ws = None, connected = True, should_stop = False\<rparr> [] dumps_ok transport_ok
        (ascii ''{}'') = (Inr True, [])
   \<and> connected (run_events [ConnectIteration 1, OnOpen 1] init_client)
   \<and> ws (run_events [OnClose] (run_events [ConnectIteration 1, OnOpen 1] init_client)) = None
   \<and> send (run_events [ConnectIteration 1, OnOpen 1] init_client) [OnClose] dumps_ok transport_ok
        (ascii ''{}'') = (Inr True, [])"
proof -
  have a: "connected \<lparr>ws = None, connected = True, should_stop = False\<rparr>"
    and b: "ws (run_events [] \<lparr>ws = None, connected = True, should_stop = False\<rparr>) = None"
    by simp_all
  have c: "connected (run_events [ConnectIteration 1, OnOpen 1] init_client)"
    and d: "ws (run_events [OnClose] (run_events [ConnectIteration 1, OnOpen 1] init_client))
      = None"
    by (simp_all add: client_defs)
  from send_without_handle_reports_success [OF a b, of dumps_ok transport_ok "ascii ''{}''"]
    send_without_handle_reports_success [OF c d, of dumps_ok transport_ok "ascii ''{}''"]
    a b c d
  show ?thesis by blast
qed

section \<open>WSClient: \_on\_message\<close>




end
